theory Spec2Isabelle
  imports Main "HOL-Library.Word" "HOL-Library.Code_Target_Nat"
begin

section \<open>The machine: objects, pointers, the allocator and the output stream\<close>

text \<open>
  \<^verbatim>\<open>kremstr.c\<close> is C code over the C library: it reads terminated strings through
  pointers, allocates one object with \<^verbatim>\<open>calloc\<close>, writes into it with \<^verbatim>\<open>strcat\<close> and
  prints with \<^verbatim>\<open>printf\<close>. The machine is modelled with a block memory: every object is
  a block of bytes with a number of its own, a pointer is null or a block number with a
  byte offset. A freed object stays in the table as \<open>None\<close>, so a dangling pointer is a
  pointer all the same, only not a valid one. What the C standard leaves undefined
  (reading through a null or dangling pointer, running past the end of an object,
  overlapping copies) is the outcome \<open>Undefined\<close>.

  \<^verbatim>\<open>size_t\<close> is 64 bits wide (LP64), its arithmetic wraps around.
\<close>

type_synonym size_t = "64 word"

definition NUL :: char where
  "NUL = CHR 0x00"

definition PTRDIFF_MAX :: nat where
  "PTRDIFF_MAX = 2 ^ 63 - 1"

datatype ptr = Null | Ptr nat nat

record machine =
  blocks :: "char list option list"
  avail :: nat
  stdout :: "char list"

datatype 'a outcome = Undefined | Returned 'a machine

text \<open>Sequencing of two calls: undefined behaviour of the first is that of the whole.\<close>

fun bind :: "'a outcome \<Rightarrow> ('a \<Rightarrow> machine \<Rightarrow> 'b outcome) \<Rightarrow> 'b outcome" where
  "bind Undefined f = Undefined"
| "bind (Returned a m) f = f a m"

text \<open>
  The bytes of an object from a pointer to the object's end. No object of the machine is
  larger than \<^verbatim>\<open>PTRDIFF_MAX\<close> bytes (the allocator below makes none): a pointer into a
  larger block of the table is as invalid as a dangling one.
\<close>

definition bytes_from :: "machine \<Rightarrow> ptr \<Rightarrow> char list option" where
  "bytes_from m p =
     (case p of
        Null \<Rightarrow> None
      | Ptr b off \<Rightarrow>
          if b < length (blocks m)
          then (case blocks m ! b of
                  None \<Rightarrow> None
                | Some bs \<Rightarrow> if length bs \<le> PTRDIFF_MAX then Some (drop off bs) else None)
          else None)"

text \<open>
  The characters before the first terminator, when there is a terminator before the
  end of the object.
\<close>

fun terminated :: "char list \<Rightarrow> char list option" where
  "terminated [] = None"
| "terminated (c # cs) =
     (if c = NUL then Some [] else map_option ((#) c) (terminated cs))"

text \<open>
  A pointer is a valid terminated string when \<open>string_at\<close> is \<open>Some cs\<close>; \<open>cs\<close> is
  then the string's content.
\<close>

definition string_at :: "machine \<Rightarrow> ptr \<Rightarrow> char list option" where
  "string_at m p = (case bytes_from m p of None \<Rightarrow> None | Some bs \<Rightarrow> terminated bs)"

section \<open>The C library functions the file calls\<close>

text \<open>
  The four library functions are not code of the file; each is modelled as the C standard
  describes it, on the machine above.

  \<^verbatim>\<open>size_t strlen(const char *s)\<close>: the number of characters before the terminator;
  undefined when \<open>s\<close> is not a valid terminated string.
\<close>

definition strlen :: "ptr \<Rightarrow> machine \<Rightarrow> size_t outcome" where
  "strlen s m =
     (case string_at m s of
        None \<Rightarrow> Undefined
      | Some cs \<Rightarrow> Returned (of_nat (length cs)) m)"

text \<open>
  The allocator can hand out \<open>avail\<close> more bytes, and no object above \<^verbatim>\<open>PTRDIFF_MAX\<close>.
\<close>

definition alloc_succeeds :: "nat \<Rightarrow> machine \<Rightarrow> bool" where
  "alloc_succeeds n m = (n \<le> PTRDIFF_MAX \<and> n \<le> avail m)"

text \<open>
  \<^verbatim>\<open>void *calloc(size_t nmemb, size_t size)\<close>: a new object of \<open>nmemb\<close> times \<open>size\<close>
  bytes, all zero, or the null pointer when the request cannot be met (which covers a
  product that does not fit \<^verbatim>\<open>size_t\<close>). The machine is unchanged when the request is
  refused.
\<close>

definition calloc :: "size_t \<Rightarrow> size_t \<Rightarrow> machine \<Rightarrow> ptr outcome" where
  "calloc nmemb sz m =
     (let n = unat nmemb * unat sz in
      if alloc_succeeds n m
      then Returned (Ptr (length (blocks m)) 0)
             (m\<lparr>blocks := blocks m @ [Some (replicate n NUL)], avail := avail m - n\<rparr>)
      else Returned Null m)"

text \<open>
  \<^verbatim>\<open>char *strcat(char *dest, const char *src)\<close>: copies the string \<open>src\<close>, terminator
  included, over the terminator of the string \<open>dest\<close>, and returns \<open>dest\<close>. Undefined
  when either is not a valid terminated string, when the object of \<open>dest\<close> has no room
  for the result, or when the bytes read and the bytes written overlap.
\<close>

definition strcat :: "ptr \<Rightarrow> ptr \<Rightarrow> machine \<Rightarrow> ptr outcome" where
  "strcat dest src m =
     (case (string_at m dest, string_at m src) of
        (Some d, Some s) \<Rightarrow>
          (case (dest, src) of
             (Ptr b off, Ptr b' off') \<Rightarrow>
               (case blocks m ! b of
                  Some bs \<Rightarrow>
                    (let start = off + length d in
                     if length bs < start + length s + 1 then Undefined
                     else if b' = b \<and> off' \<le> start + length s \<and> start \<le> off' + length s
                     then Undefined
                     else Returned dest
                            (m\<lparr>blocks := (blocks m)
                                 [b := Some (take start bs @ s @ [NUL]
                                              @ drop (start + length s + 1) bs)]\<rparr>))
                | None \<Rightarrow> Undefined)
           | _ \<Rightarrow> Undefined)
      | _ \<Rightarrow> Undefined)"

text \<open>
  \<^verbatim>\<open>printf("%s", s)\<close>: writes the characters of the string \<open>s\<close>, without the
  terminator, to the standard output and returns their number. The stream takes every
  write: output errors are outside the model.
\<close>

definition printf_s :: "ptr \<Rightarrow> machine \<Rightarrow> int outcome" where
  "printf_s s m =
     (case string_at m s of
        None \<Rightarrow> Undefined
      | Some cs \<Rightarrow> Returned (int (length cs)) (m\<lparr>stdout := stdout m @ cs\<rparr>))"

section \<open>The functions of kremstr.c\<close>

text \<open>
  Modelled from the spec: the typedefs \<^verbatim>\<open>Prims_nat\<close> and \<^verbatim>\<open>Prims_string\<close> are declared
  in \<^verbatim>\<open>kremlib.h\<close>, which is not among the sources. The spec describes the first as a
  non-negative integer that represents a count, with no bound: an integer into which the
  \<^verbatim>\<open>size_t\<close> of a \<^verbatim>\<open>return\<close> statement converts with its value. It describes the second
  as a terminated string passed by reference: a pointer.
\<close>

type_synonym Prims_nat = int
type_synonym Prims_string = ptr

definition Prims_nat_of_size_t :: "size_t \<Rightarrow> Prims_nat" where
  "Prims_nat_of_size_t n = uint n"

text \<open>
  \<^verbatim>\<open>Prims_nat FStar_String_strlen(Prims_string s) { return strlen(s); }\<close>
\<close>

definition FStar_String_strlen :: "Prims_string \<Rightarrow> machine \<Rightarrow> Prims_nat outcome" where
  "FStar_String_strlen s m = bind (strlen s m) (\<lambda>n m. Returned (Prims_nat_of_size_t n) m)"

text \<open>
  \<^verbatim>\<open>char *dest = calloc(strlen(s0) + strlen(s1) + 1, 1);\<close> \<^verbatim>\<open>strcat(dest, s0);\<close>
  \<^verbatim>\<open>strcat(dest, s1);\<close> \<^verbatim>\<open>return (Prims_string)dest;\<close> The sum is \<^verbatim>\<open>size_t\<close> arithmetic,
  the result of \<^verbatim>\<open>calloc\<close> is used as it comes, the results of \<^verbatim>\<open>strcat\<close> are dropped.
\<close>

definition FStar_String_strcat ::
  "Prims_string \<Rightarrow> Prims_string \<Rightarrow> machine \<Rightarrow> Prims_string outcome" where
  "FStar_String_strcat s0 s1 m =
     bind (strlen s0 m) (\<lambda>n0 m.
     bind (strlen s1 m) (\<lambda>n1 m.
     bind (calloc (n0 + n1 + 1) 1 m) (\<lambda>dest m.
     bind (strcat dest s0 m) (\<lambda>_ m.
     bind (strcat dest s1 m) (\<lambda>_ m.
     Returned dest m)))))"

text \<open>\<^verbatim>\<open>return FStar_String_strcat(s0, s1);\<close>\<close>

definition Prims_strcat ::
  "Prims_string \<Rightarrow> Prims_string \<Rightarrow> machine \<Rightarrow> Prims_string outcome" where
  "Prims_strcat s0 s1 m = FStar_String_strcat s0 s1 m"

text \<open>\<^verbatim>\<open>printf("%s", s);\<close> The result of \<^verbatim>\<open>printf\<close> is dropped, the function is void.\<close>

definition FStar_HyperStack_IO_print_string :: "Prims_string \<Rightarrow> machine \<Rightarrow> unit outcome" where
  "FStar_HyperStack_IO_print_string s m = bind (printf_s s m) (\<lambda>_ m. Returned () m)"

section \<open>Compositions and a machine for the worked examples\<close>

text \<open>
  The two sides of the associativity law: the inner concatenation runs first, its
  result is an argument of the outer one.
\<close>

definition concat_left ::
  "Prims_string \<Rightarrow> Prims_string \<Rightarrow> Prims_string \<Rightarrow> machine \<Rightarrow> Prims_string outcome" where
  "concat_left sa sb sc m =
     bind (FStar_String_strcat sa sb m) (\<lambda>ab m. FStar_String_strcat ab sc m)"

definition concat_right ::
  "Prims_string \<Rightarrow> Prims_string \<Rightarrow> Prims_string \<Rightarrow> machine \<Rightarrow> Prims_string outcome" where
  "concat_right sa sb sc m =
     bind (FStar_String_strcat sb sc m) (\<lambda>bc m. FStar_String_strcat sa bc m)"

text \<open>
  The strings of the spec's concrete scenario, one object each (objects 0 to 4), a freed
  object (5), \<open>n\<close> bytes left in the allocator and a prompt already on the output.
\<close>

definition demo :: "nat \<Rightarrow> machine" where
  "demo n =
     \<lparr>blocks = [Some (''foo'' @ [NUL]), Some (''bar'' @ [NUL]), Some [NUL],
                Some (''hello'' @ [NUL]), Some (''abc'' @ [NUL]), None],
      avail = n, stdout = ''> ''\<rparr>"

section \<open>Terminated strings in memory\<close>

lemma terminated_append:
  "NUL \<notin> set cs \<Longrightarrow> terminated (cs @ NUL # r) = Some cs"
  by (induction cs) auto

lemma terminated_SomeD:
  "terminated bs = Some cs \<Longrightarrow> NUL \<notin> set cs \<and> (\<exists>r. bs = cs @ NUL # r)"
  by (induction bs arbitrary: cs) (auto split: if_splits)

lemma terminated_Some_iff:
  "terminated bs = Some cs \<longleftrightarrow> NUL \<notin> set cs \<and> (\<exists>r. bs = cs @ NUL # r)"
  using terminated_SomeD terminated_append by blast

lemma string_at_Ptr:
  "string_at m (Ptr b off) = Some cs \<longleftrightarrow>
     b < length (blocks m) \<and>
     (\<exists>bs r. blocks m ! b = Some bs \<and> length bs \<le> PTRDIFF_MAX \<and>
        drop off bs = cs @ NUL # r \<and> NUL \<notin> set cs)"
  by (auto simp: string_at_def bytes_from_def terminated_Some_iff split: option.splits)

lemma string_at_Null [simp]: "string_at m Null = None"
  by (simp add: string_at_def bytes_from_def)

lemma string_at_no_NUL: "string_at m p = Some cs \<Longrightarrow> NUL \<notin> set cs"
  by (cases p) (auto simp: string_at_Ptr)

lemma string_at_live:
  "string_at m p = Some cs \<Longrightarrow> \<exists>b off. p = Ptr b off \<and> b < length (blocks m)"
  by (cases p) (auto simp: string_at_Ptr)

text \<open>Strings survive growth of the block table.\<close>

lemma string_at_grow:
  "string_at m p = Some cs \<Longrightarrow> blocks m' = blocks m @ new \<Longrightarrow> string_at m' p = Some cs"
  by (cases p) (auto simp: string_at_Ptr nth_append)

lemma string_at_bound:
  assumes "string_at m p = Some cs"
  shows "length cs < PTRDIFF_MAX"
proof -
  from assms obtain off bs r where b: "length bs \<le> PTRDIFF_MAX" "drop off bs = cs @ NUL # r"
    by (cases p) (auto simp: string_at_Ptr)
  have "length (drop off bs) \<le> length bs" by simp
  with b show ?thesis by simp
qed

section \<open>The library functions on valid strings\<close>

text \<open>The size computed for the request does not wrap when the true size is legal.\<close>

lemma unat_request:
  assumes "la + lb + 1 \<le> PTRDIFF_MAX"
  shows "unat (of_nat la + of_nat lb + 1 :: size_t) = la + lb + 1"
proof -
  have "(of_nat la + of_nat lb + 1 :: size_t) = of_nat (la + lb + 1)" by simp
  moreover have "la + lb + 1 < 2 ^ 64" using assms by (simp add: PTRDIFF_MAX_def)
  ultimately show ?thesis
    by (simp only: unat_of_nat) simp
qed

text \<open>
  \<^verbatim>\<open>strcat\<close> into the last object of the table, which holds a string \<open>d\<close> and has room
  behind it, from a string in an older object.
\<close>

lemma strcat_fresh:
  assumes src: "string_at m src = Some s"
    and blk: "blocks m = old @ [Some (d @ NUL # pad)]"
    and d: "NUL \<notin> set d"
    and room: "length s \<le> length pad"
    and legal: "length (d @ NUL # pad) \<le> PTRDIFF_MAX"
    and live: "\<exists>b off. src = Ptr b off \<and> b < length old"
  shows "strcat (Ptr (length old) 0) src m =
           Returned (Ptr (length old) 0)
             (m\<lparr>blocks := old @ [Some (d @ s @ NUL # drop (length s) pad)]\<rparr>)"
proof -
  have dst: "string_at m (Ptr (length old) 0) = Some d"
    using blk d legal by (auto simp: string_at_Ptr)
  from live obtain b off where p: "src = Ptr b off" "b < length old" by blast
  show ?thesis using src dst p room
    by (simp add: strcat_def blk)
qed


lemma strlen_string:
  "string_at m s = Some cs \<Longrightarrow> strlen s m = Returned (of_nat (length cs)) m"
  by (simp add: strlen_def)

lemma calloc_grants:
  "alloc_succeeds (unat n) m \<Longrightarrow>
     calloc n 1 m = Returned (Ptr (length (blocks m)) 0)
       (m\<lparr>blocks := blocks m @ [Some (replicate (unat n) NUL)], avail := avail m - unat n\<rparr>)"
  by (simp add: calloc_def Let_def)

section \<open>What the concatenation returns\<close>

text \<open>
  When the allocator grants the request: the result is the new object, which holds the two
  contents and the terminator and nothing else; the other objects are as they were.
\<close>

lemma FStar_String_strcat_returns:
  assumes s0: "string_at m s0 = Some a" and s1: "string_at m s1 = Some b"
    and mem: "alloc_succeeds (length a + length b + 1) m"
  shows "FStar_String_strcat s0 s1 m =
           Returned (Ptr (length (blocks m)) 0)
             (m\<lparr>blocks := blocks m @ [Some (a @ b @ [NUL])],
                avail := avail m - (length a + length b + 1)\<rparr>)"
proof -
  let ?n = "length a + length b + 1"
  let ?dest = "Ptr (length (blocks m)) 0"
  let ?m3 = "m\<lparr>blocks := blocks m @ [Some (replicate ?n NUL)], avail := avail m - ?n\<rparr>"
  let ?m4 = "?m3\<lparr>blocks := blocks m @ [Some (a @ NUL # replicate (length b) NUL)]\<rparr>"
  let ?m5 = "?m4\<lparr>blocks := blocks m @ [Some (a @ b @ [NUL])]\<rparr>"
  from mem have u: "unat (of_nat (length a) + of_nat (length b) + 1 :: size_t) = ?n"
    by (intro unat_request) (simp add: alloc_succeeds_def)
  have c: "calloc (of_nat (length a) + of_nat (length b) + 1) 1 m = Returned ?dest ?m3"
    using calloc_grants [of "of_nat (length a) + of_nat (length b) + 1" m] mem
    by (simp only: u) 
  from mem have legal: "?n \<le> PTRDIFF_MAX"
    by (simp add: alloc_succeeds_def)
  have live0: "\<exists>b off. s0 = Ptr b off \<and> b < length (blocks m)"
    and live1: "\<exists>b off. s1 = Ptr b off \<and> b < length (blocks m)"
    using s0 s1 by (auto dest: string_at_live)
  have "strcat ?dest s0 ?m3 =
          Returned ?dest (?m3\<lparr>blocks := blocks m
             @ [Some ([] @ a @ NUL # drop (length a) (replicate (length a + length b) NUL))]\<rparr>)"
    by (rule strcat_fresh [where pad = "replicate (length a + length b) NUL"])
       (use live0 legal in \<open>simp_all add: string_at_grow [OF s0]\<close>)
  then have c0: "strcat ?dest s0 ?m3 = Returned ?dest ?m4"
    by simp
  have "strcat ?dest s1 ?m4 =
          Returned ?dest (?m4\<lparr>blocks := blocks m
             @ [Some (a @ b @ NUL # drop (length b) (replicate (length b) NUL))]\<rparr>)"
    by (rule strcat_fresh [where pad = "replicate (length b) NUL"])
       (use live1 legal string_at_no_NUL [OF s0] in \<open>simp_all add: string_at_grow [OF s1]\<close>)
  then have c1: "strcat ?dest s1 ?m4 = Returned ?dest ?m5"
    by simp
  have "FStar_String_strcat s0 s1 m = Returned ?dest ?m5"
    by (simp only: FStar_String_strcat_def strlen_string [OF s0] strlen_string [OF s1]
          c c0 c1 bind.simps)
  then show ?thesis by simp
qed

text \<open>When \<^verbatim>\<open>calloc\<close> returns the null pointer, \<^verbatim>\<open>strcat\<close> is called on it.\<close>

lemma FStar_String_strcat_alloc_fails:
  assumes "string_at m s0 = Some a" "string_at m s1 = Some b"
    and "calloc (of_nat (length a) + of_nat (length b) + 1) 1 m = Returned Null m'"
  shows "FStar_String_strcat s0 s1 m = Undefined"
  using assms by (simp add: FStar_String_strcat_def strlen_def strcat_def)

lemma strcat_result: "strcat dest src m = Returned p m' \<Longrightarrow> p = dest \<and> dest \<noteq> Null"
  by (auto simp: strcat_def Let_def split: option.splits ptr.splits if_splits)

lemma FStar_String_strcat_not_Null: "FStar_String_strcat s0 s1 m \<noteq> Returned Null m'"
proof
  assume r: "FStar_String_strcat s0 s1 m = Returned Null m'"
  show False
  proof (cases "strlen s0 m")
    case Undefined with r show ?thesis by (simp add: FStar_String_strcat_def)
  next
    case (Returned n0 m1)
    show ?thesis
    proof (cases "strlen s1 m1")
      case Undefined with r Returned show ?thesis by (simp add: FStar_String_strcat_def)
    next
      case R1: (Returned n1 m2)
      show ?thesis
      proof (cases "calloc (n0 + n1 + 1) 1 m2")
        case Undefined with r Returned R1 show ?thesis by (simp add: FStar_String_strcat_def)
      next
        case R2: (Returned dest m3)
        show ?thesis
        proof (cases "strcat dest s0 m3")
          case Undefined with r Returned R1 R2 show ?thesis by (simp add: FStar_String_strcat_def)
        next
          case R3: (Returned p m4)
          then have "dest \<noteq> Null" by (auto dest: strcat_result)
          with r Returned R1 R2 R3 show ?thesis
            by (cases "strcat dest s1 m4") (simp_all add: FStar_String_strcat_def)
        qed
      qed
    qed
  qed
qed


section \<open>The worked examples and the length function\<close>

lemma demo_strings:
  "string_at (demo n) (Ptr 0 0) = Some ''foo''"
  "string_at (demo n) (Ptr 1 0) = Some ''bar''"
  "string_at (demo n) (Ptr 2 0) = Some ''''"
  "string_at (demo n) (Ptr 3 0) = Some ''hello''"
  "string_at (demo n) (Ptr 4 0) = Some ''abc''"
  "string_at (demo n) (Ptr 5 0) = None"
  by (simp_all add: demo_def string_at_def bytes_from_def NUL_def PTRDIFF_MAX_def)

lemma FStar_String_strlen_string:
  assumes "string_at m s = Some cs" "length cs \<le> PTRDIFF_MAX"
  shows "FStar_String_strlen s m = Returned (int (length cs)) m"
proof -
  have "length cs < 2 ^ 64" using assms(2) by (simp add: PTRDIFF_MAX_def)
  then have "uint (of_nat (length cs) :: size_t) = int (length cs)"
    by (simp add: uint_nat unat_of_nat)
  then show ?thesis
    using assms(1) by (simp add: FStar_String_strlen_def Prims_nat_of_size_t_def strlen_def)
qed

lemma alloc_succeeds_demo: "alloc_succeeds k (demo n) \<longleftrightarrow> k \<le> PTRDIFF_MAX \<and> k \<le> n"
  by (simp add: alloc_succeeds_def demo_def)

lemma blocks_demo: "length (blocks (demo n)) = 6"
  by (simp add: demo_def)

section \<open>Further facts about the allocator and the result\<close>

lemma calloc_refuses:
  "\<not> alloc_succeeds (unat n) m \<Longrightarrow> calloc n 1 m = Returned Null m"
  by (simp add: calloc_def Let_def)

text \<open>
  For valid strings the refusal of the allocator is the one way in which the concatenation
  is undefined.
\<close>

lemma FStar_String_strcat_defined_iff:
  assumes "string_at m s0 = Some a" and "string_at m s1 = Some b"
  shows "FStar_String_strcat s0 s1 m = Undefined
           \<longleftrightarrow> \<not> alloc_succeeds (length a + length b + 1) m"
proof
  assume "FStar_String_strcat s0 s1 m = Undefined"
  then show "\<not> alloc_succeeds (length a + length b + 1) m"
    using FStar_String_strcat_returns [OF assms] by auto
next
  assume no: "\<not> alloc_succeeds (length a + length b + 1) m"
  have "length a < PTRDIFF_MAX" "length b < PTRDIFF_MAX"
    using assms by (auto dest: string_at_bound)
  then have "length a + length b + 1 < 2 ^ 64"
    by (simp add: PTRDIFF_MAX_def)
  moreover have "(of_nat (length a) + of_nat (length b) + 1 :: size_t)
      = of_nat (length a + length b + 1)"
    by simp
  ultimately have "unat (of_nat (length a) + of_nat (length b) + 1 :: size_t)
      = length a + length b + 1"
    by (simp only: unat_of_nat) simp
  with no have "calloc (of_nat (length a) + of_nat (length b) + 1) 1 m = Returned Null m"
    by (intro calloc_refuses) simp
  then show "FStar_String_strcat s0 s1 m = Undefined"
    by (rule FStar_String_strcat_alloc_fails [OF assms])
qed

lemma alloc_succeeds_bound: "alloc_succeeds n m \<Longrightarrow> k \<le> n \<Longrightarrow> k \<le> PTRDIFF_MAX"
  by (simp add: alloc_succeeds_def)

lemma alloc_succeeds_avail:
  "alloc_succeeds n (m\<lparr>blocks := bs, avail := k\<rparr>) = alloc_succeeds n (m\<lparr>avail := k\<rparr>)"
  by (simp add: alloc_succeeds_def)

text \<open>The strings of the machine that \<open>FStar_String_strcat\<close> returns.\<close>

lemma string_at_result:
  assumes "string_at m s0 = Some a" and "string_at m s1 = Some b"
    and "alloc_succeeds (length a + length b + 1) m"
  defines "m' \<equiv> m\<lparr>blocks := blocks m @ [Some (a @ b @ [NUL])],
                avail := avail m - (length a + length b + 1)\<rparr>"
  shows "string_at m' (Ptr (length (blocks m)) 0) = Some (a @ b)"
    and "string_at m' s0 = Some a" and "string_at m' s1 = Some b"
proof -
  have "NUL \<notin> set (a @ b)"
    using assms(1,2) by (auto dest: string_at_no_NUL)
  then show "string_at m' (Ptr (length (blocks m)) 0) = Some (a @ b)"
    using assms(3) by (auto simp: string_at_Ptr m'_def alloc_succeeds_def)
  show "string_at m' s0 = Some a" "string_at m' s1 = Some b"
    using assms(1,2) by (auto intro: string_at_grow simp: m'_def)
qed

text \<open>
  A concatenation whose result is an argument of a second one, on either side, when both
  allocations succeed.
\<close>

lemma strcat_twice:
  assumes x: "string_at m sx = Some x" and y: "string_at m sy = Some y"
    and z: "string_at m sz = Some z"
    and inner: "alloc_succeeds (length x + length y + 1) m"
    and outer: "alloc_succeeds (length x + length y + length z + 1)
                  (m\<lparr>avail := avail m - (length x + length y + 1)\<rparr>)"
  defines "m1 \<equiv> m\<lparr>blocks := blocks m @ [Some (x @ y @ [NUL])],
                avail := avail m - (length x + length y + 1)\<rparr>"
  shows "FStar_String_strcat sx sy m = Returned (Ptr (length (blocks m)) 0) m1"
    and "\<exists>p m'. FStar_String_strcat (Ptr (length (blocks m)) 0) sz m1 = Returned p m' \<and>
           string_at m' p = Some (x @ y @ z)"
    and "\<exists>p m'. FStar_String_strcat sz (Ptr (length (blocks m)) 0) m1 = Returned p m' \<and>
           string_at m' p = Some (z @ x @ y)"
proof -
  let ?p = "Ptr (length (blocks m)) 0"
  show "FStar_String_strcat sx sy m = Returned ?p m1"
    unfolding m1_def using x y inner by (rule FStar_String_strcat_returns)
  have xy: "string_at m1 ?p = Some (x @ y)"
    unfolding m1_def by (rule string_at_result(1) [OF x y inner])
  have z1: "string_at m1 sz = Some z"
    using z by (rule string_at_grow) (simp add: m1_def)
  have mem: "alloc_succeeds (length (x @ y) + length z + 1) m1"
    "alloc_succeeds (length z + length (x @ y) + 1) m1"
    using outer by (simp_all add: m1_def alloc_succeeds_avail add.commute add.left_commute)
  from FStar_String_strcat_returns [OF xy z1 mem(1)] string_at_result(1) [OF xy z1 mem(1)]
  show "\<exists>p m'. FStar_String_strcat ?p sz m1 = Returned p m' \<and> string_at m' p = Some (x @ y @ z)"
    by simp
  from FStar_String_strcat_returns [OF z1 xy mem(2)] string_at_result(1) [OF z1 xy mem(2)]
  show "\<exists>p m'. FStar_String_strcat sz ?p m1 = Returned p m' \<and> string_at m' p = Some (z @ x @ y)"
    by simp
qed

section \<open>The claims\<close>

subsection \<open>C1: what the concatenation returns\<close>

text \<open>
  C1, as amended. For every pair of valid terminated strings \<open>s0\<close> and \<open>s1\<close> (contents
  \<open>a\<close> and \<open>b\<close>) for which the allocator grants the \<open>length a + length b + 1\<close> bytes,
  \<open>FStar_String_strcat\<close> returns a pointer to a new object, behind the objects that were
  there; the object has exactly \<open>length a + length b + 1\<close> bytes, and the string at the
  pointer is \<open>a\<close> followed by \<open>b\<close>, nothing cut off.
\<close>

theorem FStar_String_strcat_content:
  assumes "string_at m s0 = Some a" and "string_at m s1 = Some b"
    and "alloc_succeeds (length a + length b + 1) m"
  shows "\<exists>m' buf. FStar_String_strcat s0 s1 m = Returned (Ptr (length (blocks m)) 0) m' \<and>
           blocks m' = blocks m @ [Some buf] \<and>
           length buf = length a + length b + 1 \<and>
           string_at m' (Ptr (length (blocks m)) 0) = Some (a @ b)"
proof -
  let ?m' = "m\<lparr>blocks := blocks m @ [Some (a @ b @ [NUL])],
                avail := avail m - (length a + length b + 1)\<rparr>"
  have "string_at ?m' (Ptr (length (blocks m)) 0) = Some (a @ b)"
    by (rule string_at_result(1) [OF assms])
  moreover have "FStar_String_strcat s0 s1 m = Returned (Ptr (length (blocks m)) 0) ?m'"
    using assms by (rule FStar_String_strcat_returns)
  ultimately show ?thesis by simp
qed

text \<open>The spec's scenario: "foo" and "bar" give "foobar", in an object of 7 bytes.\<close>

theorem FStar_String_strcat_content_witness:
  "\<exists>m' buf. FStar_String_strcat (Ptr 0 0) (Ptr 1 0) (demo 7) = Returned (Ptr 6 0) m' \<and>
     blocks m' = blocks (demo 7) @ [Some buf] \<and> length buf = 7 \<and>
     string_at m' (Ptr 6 0) = Some ''foobar''"
  using FStar_String_strcat_content [OF demo_strings(1) demo_strings(2), of 7]
  by (auto simp: alloc_succeeds_demo PTRDIFF_MAX_def blocks_demo)

text \<open>
  As written, for every pair of valid strings, C1 does not hold: with 6 bytes left the
  allocator refuses the 7 bytes for "foo" and "bar", \<^verbatim>\<open>calloc\<close> returns the null pointer,
  the code passes it to \<^verbatim>\<open>strcat\<close> unchecked, and nothing is returned.
\<close>

theorem FStar_String_strcat_exhausted:
  "string_at (demo 6) (Ptr 0 0) = Some ''foo'' \<and>
   string_at (demo 6) (Ptr 1 0) = Some ''bar'' \<and>
   FStar_String_strcat (Ptr 0 0) (Ptr 1 0) (demo 6) = Undefined"
proof -
  have "calloc (of_nat (length ''foo'') + of_nat (length ''bar'') + 1) 1 (demo 6)
          = Returned Null (demo 6)"
    by (rule calloc_refuses) (simp add: alloc_succeeds_demo)
  then have "FStar_String_strcat (Ptr 0 0) (Ptr 1 0) (demo 6) = Undefined"
    by (rule FStar_String_strcat_alloc_fails [OF demo_strings(1) demo_strings(2)])
  with demo_strings(1,2) show ?thesis by blast
qed

subsection \<open>C2: the length\<close>

text \<open>
  C2. For every valid terminated string \<open>s\<close> (content \<open>cs\<close>), \<open>FStar_String_strlen\<close>
  returns the number of characters before the terminator and leaves the machine as it
  was: the byte at that distance from \<open>s\<close> is the terminator and no byte before it is.
  The length of the empty string is 0.
\<close>

theorem FStar_String_strlen_counts:
  assumes "string_at m s = Some cs"
  shows "FStar_String_strlen s m = Returned (int (length cs)) m \<and>
         (\<exists>b off bs. s = Ptr b off \<and> b < length (blocks m) \<and> blocks m ! b = Some bs \<and>
            off + length cs < length bs \<and> bs ! (off + length cs) = NUL \<and>
            (\<forall>i<length cs. bs ! (off + i) = cs ! i \<and> cs ! i \<noteq> NUL))"
proof
  from assms have "length cs \<le> PTRDIFF_MAX"
    by (auto dest: string_at_bound)
  with assms show "FStar_String_strlen s m = Returned (int (length cs)) m"
    by (rule FStar_String_strlen_string)
next
  from assms obtain b off bs r where p: "s = Ptr b off" "b < length (blocks m)"
      "blocks m ! b = Some bs" "drop off bs = cs @ NUL # r" "NUL \<notin> set cs"
    by (cases s) (auto simp: string_at_Ptr)
  have len: "off + length cs < length bs"
    using arg_cong [OF p(4), of length] by simp
  have nth: "bs ! (off + i) = (cs @ NUL # r) ! i" if "i \<le> length cs" for i
  proof -
    have "(cs @ NUL # r) ! i = drop off bs ! i" by (simp only: p(4))
    also have "\<dots> = bs ! (off + i)" using len by simp
    finally show ?thesis by simp
  qed
  have "bs ! (off + length cs) = NUL"
    using nth [of "length cs"] by simp
  moreover have "\<forall>i<length cs. bs ! (off + i) = cs ! i \<and> cs ! i \<noteq> NUL"
    using nth p(5) by (auto simp: nth_append in_set_conv_nth)
  ultimately show "\<exists>b off bs. s = Ptr b off \<and> b < length (blocks m) \<and> blocks m ! b = Some bs \<and>
            off + length cs < length bs \<and> bs ! (off + length cs) = NUL \<and>
            (\<forall>i<length cs. bs ! (off + i) = cs ! i \<and> cs ! i \<noteq> NUL)"
    using p len by blast
qed

text \<open>The spec's scenario: the length of "hello" is 5, that of the empty string 0.\<close>

theorem FStar_String_strlen_counts_witness:
  "FStar_String_strlen (Ptr 3 0) (demo 0) = Returned 5 (demo 0) \<and>
   FStar_String_strlen (Ptr 2 0) (demo 0) = Returned 0 (demo 0)"
  using FStar_String_strlen_counts [OF demo_strings(4), of 0]
    FStar_String_strlen_counts [OF demo_strings(3), of 0]
  by simp

subsection \<open>C3: the length of a concatenation\<close>

text \<open>
  C3, as amended. For all valid terminated strings \<open>s0\<close> and \<open>s1\<close> for which the allocator
  grants the bytes of their concatenation, the length of the concatenation is the sum of
  the two lengths, each as \<open>FStar_String_strlen\<close> returns it.
\<close>

theorem strlen_strcat:
  assumes "string_at m s0 = Some a" and "string_at m s1 = Some b"
    and "alloc_succeeds (length a + length b + 1) m"
  shows "\<exists>n0 n1 m'. FStar_String_strlen s0 m = Returned n0 m \<and>
           FStar_String_strlen s1 m = Returned n1 m \<and>
           bind (FStar_String_strcat s0 s1 m) FStar_String_strlen = Returned (n0 + n1) m'"
proof -
  let ?m' = "m\<lparr>blocks := blocks m @ [Some (a @ b @ [NUL])],
                avail := avail m - (length a + length b + 1)\<rparr>"
  let ?p = "Ptr (length (blocks m)) 0"
  note bound = alloc_succeeds_bound [OF assms(3)]
  have l0: "FStar_String_strlen s0 m = Returned (int (length a)) m"
    using assms(1) by (rule FStar_String_strlen_string) (simp add: bound)
  have l1: "FStar_String_strlen s1 m = Returned (int (length b)) m"
    using assms(2) by (rule FStar_String_strlen_string) (simp add: bound)
  have "FStar_String_strlen ?p ?m' = Returned (int (length (a @ b))) ?m'"
    using string_at_result(1) [OF assms]
    by (rule FStar_String_strlen_string) (simp add: bound)
  moreover have "FStar_String_strcat s0 s1 m = Returned ?p ?m'"
    using assms by (rule FStar_String_strcat_returns)
  ultimately have "bind (FStar_String_strcat s0 s1 m) FStar_String_strlen
      = Returned (int (length a) + int (length b)) ?m'"
    by simp
  with l0 l1 show ?thesis by blast
qed

theorem strlen_strcat_witness:
  "\<exists>m'. FStar_String_strlen (Ptr 3 0) (demo 9) = Returned 5 (demo 9) \<and>
     FStar_String_strlen (Ptr 4 0) (demo 9) = Returned 3 (demo 9) \<and>
     bind (FStar_String_strcat (Ptr 3 0) (Ptr 4 0) (demo 9)) FStar_String_strlen = Returned 8 m'"
proof -
  have l: "FStar_String_strlen (Ptr 3 0) (demo 9) = Returned 5 (demo 9)"
    "FStar_String_strlen (Ptr 4 0) (demo 9) = Returned 3 (demo 9)"
    using FStar_String_strlen_string [OF demo_strings(4), of 9]
      FStar_String_strlen_string [OF demo_strings(5), of 9]
    by (simp_all add: PTRDIFF_MAX_def)
  have "alloc_succeeds (length ''hello'' + length ''abc'' + 1) (demo 9)"
    by (simp add: alloc_succeeds_demo PTRDIFF_MAX_def)
  from strlen_strcat [OF demo_strings(4) demo_strings(5) this] l show ?thesis
    by auto
qed

text \<open>
  As written, for all valid strings, C3 does not hold: with no memory left the
  concatenation of "hello" and "abc" returns nothing, so there is no length to compare.
\<close>

theorem strlen_strcat_exhausted:
  "string_at (demo 0) (Ptr 3 0) = Some ''hello'' \<and>
   string_at (demo 0) (Ptr 4 0) = Some ''abc'' \<and>
   bind (FStar_String_strcat (Ptr 3 0) (Ptr 4 0) (demo 0)) FStar_String_strlen = Undefined"
proof -
  have "calloc (of_nat (length ''hello'') + of_nat (length ''abc'') + 1) 1 (demo 0)
          = Returned Null (demo 0)"
    by (rule calloc_refuses) (simp add: alloc_succeeds_demo)
  then have "FStar_String_strcat (Ptr 3 0) (Ptr 4 0) (demo 0) = Undefined"
    by (rule FStar_String_strcat_alloc_fails [OF demo_strings(4) demo_strings(5)])
  then have "bind (FStar_String_strcat (Ptr 3 0) (Ptr 4 0) (demo 0)) FStar_String_strlen = Undefined"
    by simp
  with demo_strings(4,5) show ?thesis by blast
qed

subsection \<open>C4: the empty string\<close>

text \<open>
  C4, as amended. For every valid terminated string \<open>s\<close> (content \<open>a\<close>) and every valid
  empty string \<open>e\<close>, when the allocator grants the \<open>length a + 1\<close> bytes: the concatenation
  of \<open>s\<close> and \<open>e\<close> and that of \<open>e\<close> and \<open>s\<close> both return a string with the content of \<open>s\<close>,
  which \<open>s\<close> still has.
\<close>

theorem strcat_empty:
  assumes "string_at m s = Some a" and "string_at m e = Some []"
    and "alloc_succeeds (length a + 1) m"
  shows "(\<exists>p m'. FStar_String_strcat s e m = Returned p m' \<and>
            string_at m' p = Some a \<and> string_at m' s = Some a) \<and>
         (\<exists>p m'. FStar_String_strcat e s m = Returned p m' \<and>
            string_at m' p = Some a \<and> string_at m' s = Some a)"
proof
  have "FStar_String_strcat s e m = Returned (Ptr (length (blocks m)) 0)
          (m\<lparr>blocks := blocks m @ [Some (a @ [] @ [NUL])],
             avail := avail m - (length a + length ([] :: char list) + 1)\<rparr>)"
    using assms by (intro FStar_String_strcat_returns) simp_all
  moreover have "alloc_succeeds (length a + length ([] :: char list) + 1) m"
    using assms(3) by simp
  note string_at_result(1,2) [OF assms(1,2) this]
  ultimately show "\<exists>p m'. FStar_String_strcat s e m = Returned p m' \<and>
          string_at m' p = Some a \<and> string_at m' s = Some a"
    by simp
next
  have "FStar_String_strcat e s m = Returned (Ptr (length (blocks m)) 0)
          (m\<lparr>blocks := blocks m @ [Some ([] @ a @ [NUL])],
             avail := avail m - (length ([] :: char list) + length a + 1)\<rparr>)"
    using assms by (intro FStar_String_strcat_returns) simp_all
  moreover have "alloc_succeeds (length ([] :: char list) + length a + 1) m"
    using assms(3) by simp
  note string_at_result(1,3) [OF assms(2,1) this]
  ultimately show "\<exists>p m'. FStar_String_strcat e s m = Returned p m' \<and>
          string_at m' p = Some a \<and> string_at m' s = Some a"
    by simp
qed

theorem strcat_empty_witness:
  "(\<exists>p m'. FStar_String_strcat (Ptr 0 0) (Ptr 2 0) (demo 4) = Returned p m' \<and>
      string_at m' p = Some ''foo'' \<and> string_at m' (Ptr 0 0) = Some ''foo'') \<and>
   (\<exists>p m'. FStar_String_strcat (Ptr 2 0) (Ptr 0 0) (demo 4) = Returned p m' \<and>
      string_at m' p = Some ''foo'' \<and> string_at m' (Ptr 0 0) = Some ''foo'')"
proof -
  have "alloc_succeeds (length ''foo'' + 1) (demo 4)"
    by (simp add: alloc_succeeds_demo PTRDIFF_MAX_def)
  from strcat_empty [OF demo_strings(1) demo_strings(3) this] show ?thesis .
qed

text \<open>
  As written, for every valid string, C4 does not hold: with 3 bytes left neither
  concatenation of "foo" and the empty string returns anything.
\<close>

theorem strcat_empty_exhausted:
  "string_at (demo 3) (Ptr 0 0) = Some ''foo'' \<and>
   string_at (demo 3) (Ptr 2 0) = Some [] \<and>
   FStar_String_strcat (Ptr 0 0) (Ptr 2 0) (demo 3) = Undefined \<and>
   FStar_String_strcat (Ptr 2 0) (Ptr 0 0) (demo 3) = Undefined"
proof -
  have "calloc (of_nat (length ''foo'') + of_nat (length ([] :: char list)) + 1) 1 (demo 3)
          = Returned Null (demo 3)"
    by (rule calloc_refuses) (simp add: alloc_succeeds_demo)
  then have l: "FStar_String_strcat (Ptr 0 0) (Ptr 2 0) (demo 3) = Undefined"
    by (rule FStar_String_strcat_alloc_fails [OF demo_strings(1) demo_strings(3)])
  have "calloc (of_nat (length ([] :: char list)) + of_nat (length ''foo'') + 1) 1 (demo 3)
          = Returned Null (demo 3)"
    by (rule calloc_refuses) (simp add: alloc_succeeds_demo)
  then have "FStar_String_strcat (Ptr 2 0) (Ptr 0 0) (demo 3) = Undefined"
    by (rule FStar_String_strcat_alloc_fails [OF demo_strings(3) demo_strings(1)])
  with l demo_strings(1,3) show ?thesis by blast
qed

subsection \<open>C5: associativity\<close>

text \<open>
  C5, as amended. For all valid terminated strings \<open>sa\<close>, \<open>sb\<close> and \<open>sc\<close> (contents \<open>a\<close>,
  \<open>b\<close>, \<open>c\<close>), when the allocator grants both requests of either side (the inner
  concatenation first, then the outer one from what is left), the concatenation of the
  concatenation of \<open>sa\<close> and \<open>sb\<close> with \<open>sc\<close> and the concatenation of \<open>sa\<close> with that of
  \<open>sb\<close> and \<open>sc\<close> both return a string, and the two have the same content.
\<close>

theorem strcat_assoc:
  assumes "string_at m sa = Some a" and "string_at m sb = Some b" and "string_at m sc = Some c"
    and "alloc_succeeds (length a + length b + 1) m"
    and "alloc_succeeds (length a + length b + length c + 1)
           (m\<lparr>avail := avail m - (length a + length b + 1)\<rparr>)"
    and "alloc_succeeds (length b + length c + 1) m"
    and "alloc_succeeds (length a + length b + length c + 1)
           (m\<lparr>avail := avail m - (length b + length c + 1)\<rparr>)"
  shows "\<exists>p m1 q m2. concat_left sa sb sc m = Returned p m1 \<and>
           concat_right sa sb sc m = Returned q m2 \<and>
           string_at m1 p = Some (a @ b @ c) \<and> string_at m2 q = Some (a @ b @ c)"
proof -
  from strcat_twice(1,2) [OF assms(1,2,3,4,5)]
  have "\<exists>p m1. concat_left sa sb sc m = Returned p m1 \<and> string_at m1 p = Some (a @ b @ c)"
    by (simp add: concat_left_def)
  moreover
  have "alloc_succeeds (length b + length c + length a + 1)
           (m\<lparr>avail := avail m - (length b + length c + 1)\<rparr>)"
    using assms(7) by (simp add: add.commute add.left_commute)
  from strcat_twice(1,3) [OF assms(2,3,1,6) this]
  have "\<exists>q m2. concat_right sa sb sc m = Returned q m2 \<and> string_at m2 q = Some (a @ b @ c)"
    by (simp add: concat_right_def)
  ultimately show ?thesis by blast
qed

theorem strcat_assoc_witness:
  "\<exists>p m1 q m2. concat_left (Ptr 0 0) (Ptr 1 0) (Ptr 4 0) (demo 20) = Returned p m1 \<and>
     concat_right (Ptr 0 0) (Ptr 1 0) (Ptr 4 0) (demo 20) = Returned q m2 \<and>
     string_at m1 p = Some ''foobarabc'' \<and> string_at m2 q = Some ''foobarabc''"
  using strcat_assoc [OF demo_strings(1) demo_strings(2) demo_strings(5), of 20]
  by (simp add: alloc_succeeds_def demo_def PTRDIFF_MAX_def)

text \<open>
  As written, for all valid strings, C5 does not hold, and the two sides can even differ:
  with 11 bytes left, "foo", "bar" and the empty string, the left side takes 7 bytes for
  "foobar", is refused the next 7 and returns nothing, while the right side takes 4
  bytes and then 7 and returns its string.
\<close>

theorem strcat_assoc_exhausted:
  "string_at (demo 11) (Ptr 0 0) = Some ''foo'' \<and>
   string_at (demo 11) (Ptr 1 0) = Some ''bar'' \<and> string_at (demo 11) (Ptr 2 0) = Some [] \<and>
   concat_left (Ptr 0 0) (Ptr 1 0) (Ptr 2 0) (demo 11) = Undefined \<and>
   concat_right (Ptr 0 0) (Ptr 1 0) (Ptr 2 0) (demo 11) \<noteq> Undefined"
proof -
  let ?m1 = "(demo 11)\<lparr>blocks := blocks (demo 11) @ [Some (''foo'' @ ''bar'' @ [NUL])],
                avail := avail (demo 11) - (length ''foo'' + length ''bar'' + 1)\<rparr>"
  let ?p = "Ptr (length (blocks (demo 11))) 0"
  have mem: "alloc_succeeds (length ''foo'' + length ''bar'' + 1) (demo 11)"
    by (simp add: alloc_succeeds_demo PTRDIFF_MAX_def)
  then have first: "FStar_String_strcat (Ptr 0 0) (Ptr 1 0) (demo 11) = Returned ?p ?m1"
    by (rule FStar_String_strcat_returns [OF demo_strings(1) demo_strings(2)])
  have xy: "string_at ?m1 ?p = Some (''foo'' @ ''bar'')"
    by (rule string_at_result(1) [OF demo_strings(1) demo_strings(2) mem])
  have e: "string_at ?m1 (Ptr 2 0) = Some []"
    using demo_strings(3) by (rule string_at_grow) simp
  have "calloc (of_nat (length (''foo'' @ ''bar'')) + of_nat (length ([] :: char list)) + 1) 1 ?m1
          = Returned Null ?m1"
    by (rule calloc_refuses) (simp add: alloc_succeeds_def demo_def)
  then have "FStar_String_strcat ?p (Ptr 2 0) ?m1 = Undefined"
    by (rule FStar_String_strcat_alloc_fails [OF xy e])
  with first have left: "concat_left (Ptr 0 0) (Ptr 1 0) (Ptr 2 0) (demo 11) = Undefined"
    by (simp only: concat_left_def bind.simps)
  have "alloc_succeeds (length ''bar'' + length ([] :: char list) + 1) (demo 11)"
    "alloc_succeeds (length ''bar'' + length ([] :: char list) + length ''foo'' + 1)
       ((demo 11)\<lparr>avail := avail (demo 11) - (length ''bar'' + length ([] :: char list) + 1)\<rparr>)"
    by (simp_all add: alloc_succeeds_def demo_def PTRDIFF_MAX_def)
  from strcat_twice(1,3) [OF demo_strings(2) demo_strings(3) demo_strings(1) this]
  have "concat_right (Ptr 0 0) (Ptr 1 0) (Ptr 2 0) (demo 11) \<noteq> Undefined"
    by (auto simp: concat_right_def)
  with left demo_strings(1,2,3) show ?thesis by blast
qed

subsection \<open>C6: the alias\<close>

text \<open>
  C6. \<open>Prims_strcat\<close> and \<open>FStar_String_strcat\<close> are the same function: on the same
  arguments in the same order and the same machine they have the same outcome, the returned
  pointer and the machine left behind included, and one is undefined where the other is.
\<close>

theorem Prims_strcat_forwards: "Prims_strcat = FStar_String_strcat"
  by (intro ext) (simp add: Prims_strcat_def)

subsection \<open>C7: printing\<close>

text \<open>
  C7. For every valid terminated string \<open>s\<close> (content \<open>cs\<close>),
  \<open>FStar_HyperStack_IO_print_string\<close> returns no value and leaves the machine as it was
  but for the standard output, which is the output so far followed by exactly the
  characters \<open>cs\<close>, in their order: no terminator, no line end, nothing else.
\<close>

theorem print_string_emits:
  assumes "string_at m s = Some cs"
  shows "FStar_HyperStack_IO_print_string s m = Returned () (m\<lparr>stdout := stdout m @ cs\<rparr>)"
  using assms by (simp add: FStar_HyperStack_IO_print_string_def printf_s_def)

text \<open>The spec's scenario: printing "abc" puts exactly \<open>abc\<close> behind the prompt.\<close>

theorem print_string_emits_witness:
  "FStar_HyperStack_IO_print_string (Ptr 4 0) (demo 0)
     = Returned () ((demo 0)\<lparr>stdout := ''> abc''\<rparr>) \<and>
   stdout (demo 0) = ''> ''"
  using print_string_emits [OF demo_strings(5), of 0]
  by (simp add: demo_def)

subsection \<open>C8: no check of the allocation\<close>

text \<open>
  C8. Whatever its arguments and the machine, \<open>FStar_String_strcat\<close> never returns the
  null pointer, the one value by which a function of its type could report a failure; and
  when \<^verbatim>\<open>calloc\<close> returns the null pointer for the request of two valid strings, the
  outcome is undefined behaviour, not a result.
\<close>

theorem FStar_String_strcat_unchecked:
  "FStar_String_strcat s0 s1 m \<noteq> Returned Null m' \<and>
   (string_at m s0 = Some a \<longrightarrow> string_at m s1 = Some b \<longrightarrow>
    calloc (of_nat (length a) + of_nat (length b) + 1) 1 m = Returned Null m \<longrightarrow>
    FStar_String_strcat s0 s1 m = Undefined)"
  using FStar_String_strcat_not_Null FStar_String_strcat_alloc_fails by blast

theorem FStar_String_strcat_unchecked_witness:
  "string_at (demo 5) (Ptr 1 0) = Some ''bar'' \<and> string_at (demo 5) (Ptr 4 0) = Some ''abc'' \<and>
   calloc (of_nat (length ''bar'') + of_nat (length ''abc'') + 1) 1 (demo 5)
     = Returned Null (demo 5) \<and>
   FStar_String_strcat (Ptr 1 0) (Ptr 4 0) (demo 5) = Undefined"
proof -
  have c: "calloc (of_nat (length ''bar'') + of_nat (length ''abc'') + 1) 1 (demo 5)
          = Returned Null (demo 5)"
    by (rule calloc_refuses) (simp add: alloc_succeeds_demo)
  with FStar_String_strcat_unchecked [of "Ptr 1 0" "Ptr 4 0" "demo 5" _ "''bar''" "''abc''"]
    demo_strings(2) [of 5] demo_strings(5) [of 5]
  show ?thesis by blast
qed

subsection \<open>C9: the count is not negative\<close>

text \<open>
  C9. For every valid terminated string \<open>s\<close>, whatever its length, \<open>FStar_String_strlen\<close>
  returns a number that is not negative.
\<close>

theorem FStar_String_strlen_nonneg:
  assumes "string_at m s = Some cs"
  shows "\<exists>n. FStar_String_strlen s m = Returned n m \<and> 0 \<le> n"
  using assms by (simp add: FStar_String_strlen_def Prims_nat_of_size_t_def strlen_def)

theorem FStar_String_strlen_nonneg_witness:
  "\<exists>n. FStar_String_strlen (Ptr 0 0) (demo 0) = Returned n (demo 0) \<and> 0 \<le> n"
  using FStar_String_strlen_nonneg [OF demo_strings(1), of 0] .

subsection \<open>C10: the result is a valid string\<close>

text \<open>
  C10, as amended. For every pair of valid terminated strings \<open>s0\<close> and \<open>s1\<close> for which
  the allocator grants the bytes, the pointer that \<open>FStar_String_strcat\<close> returns is a
  valid terminated string of the machine it leaves behind, in which \<open>s0\<close> and \<open>s1\<close> are
  the strings they were. So it is a valid input of the three operations: the length and
  the printing are defined on it, and so is its concatenation with any valid string, on
  either side, whenever the allocator grants the bytes of that concatenation.
\<close>

theorem FStar_String_strcat_valid:
  assumes "string_at m s0 = Some a" and "string_at m s1 = Some b"
    and "alloc_succeeds (length a + length b + 1) m"
  shows "\<exists>p m' cs. FStar_String_strcat s0 s1 m = Returned p m' \<and>
           string_at m' p = Some cs \<and>
           string_at m' s0 = Some a \<and> string_at m' s1 = Some b \<and>
           FStar_String_strlen p m' \<noteq> Undefined \<and>
           FStar_HyperStack_IO_print_string p m' \<noteq> Undefined \<and>
           (\<forall>q d. string_at m' q = Some d \<longrightarrow>
              alloc_succeeds (length cs + length d + 1) m' \<longrightarrow>
              FStar_String_strcat p q m' \<noteq> Undefined \<and>
              FStar_String_strcat q p m' \<noteq> Undefined)"
proof -
  let ?m' = "m\<lparr>blocks := blocks m @ [Some (a @ b @ [NUL])],
                avail := avail m - (length a + length b + 1)\<rparr>"
  let ?p = "Ptr (length (blocks m)) 0"
  have r: "FStar_String_strcat s0 s1 m = Returned ?p ?m'"
    using assms by (rule FStar_String_strcat_returns)
  note s = string_at_result [OF assms]
  have l: "FStar_String_strlen ?p ?m' \<noteq> Undefined"
    using s(1) by (simp add: FStar_String_strlen_def strlen_def)
  have pr: "FStar_HyperStack_IO_print_string ?p ?m' \<noteq> Undefined"
    using s(1) by (simp add: FStar_HyperStack_IO_print_string_def printf_s_def)
  have c: "FStar_String_strcat ?p q ?m' \<noteq> Undefined \<and> FStar_String_strcat q ?p ?m' \<noteq> Undefined"
    if "string_at ?m' q = Some d" "alloc_succeeds (length (a @ b) + length d + 1) ?m'" for q d
    using that FStar_String_strcat_defined_iff [OF s(1) that(1)]
      FStar_String_strcat_defined_iff [OF that(1) s(1)]
    by (simp add: add.commute add.left_commute)
  from r s l pr c show ?thesis by blast
qed

theorem FStar_String_strcat_valid_witness:
  "\<exists>p m' cs. FStar_String_strcat (Ptr 4 0) (Ptr 3 0) (demo 30) = Returned p m' \<and>
     string_at m' p = Some cs \<and>
     string_at m' (Ptr 4 0) = Some ''abc'' \<and> string_at m' (Ptr 3 0) = Some ''hello'' \<and>
     FStar_String_strlen p m' \<noteq> Undefined \<and>
     FStar_HyperStack_IO_print_string p m' \<noteq> Undefined \<and>
     FStar_String_strcat p (Ptr 4 0) m' \<noteq> Undefined \<and>
     FStar_String_strcat (Ptr 4 0) p m' \<noteq> Undefined"
proof -
  have mem: "alloc_succeeds (length ''abc'' + length ''hello'' + 1) (demo 30)"
    by (simp add: alloc_succeeds_demo PTRDIFF_MAX_def)
  from FStar_String_strcat_valid [OF demo_strings(5) demo_strings(4) mem]
  obtain p m' cs where v:
    "FStar_String_strcat (Ptr 4 0) (Ptr 3 0) (demo 30) = Returned p m'"
    "string_at m' p = Some cs"
    "string_at m' (Ptr 4 0) = Some ''abc''" "string_at m' (Ptr 3 0) = Some ''hello''"
    "FStar_String_strlen p m' \<noteq> Undefined"
    "FStar_HyperStack_IO_print_string p m' \<noteq> Undefined"
    and further: "\<And>q d. string_at m' q = Some d \<Longrightarrow>
      alloc_succeeds (length cs + length d + 1) m' \<Longrightarrow>
      FStar_String_strcat p q m' \<noteq> Undefined \<and> FStar_String_strcat q p m' \<noteq> Undefined"
    by blast
  from v(1) FStar_String_strcat_returns [OF demo_strings(5) demo_strings(4) mem]
  have eq: "p = Ptr (length (blocks (demo 30))) 0"
    "m' = (demo 30)\<lparr>blocks := blocks (demo 30) @ [Some (''abc'' @ ''hello'' @ [NUL])],
            avail := avail (demo 30) - (length ''abc'' + length ''hello'' + 1)\<rparr>"
    by simp_all
  from v(2) string_at_result(1) [OF demo_strings(5) demo_strings(4) mem]
  have cs: "cs = ''abc'' @ ''hello''"
    unfolding eq by simp
  have "alloc_succeeds (length cs + length ''abc'' + 1) m'"
    unfolding eq cs by (simp add: alloc_succeeds_def demo_def PTRDIFF_MAX_def)
  from further [OF v(3) this] v show ?thesis by blast
qed

text \<open>
  As written, with "always", C10 does not hold: with 2 bytes left the concatenation of
  "abc" and "hello" returns no string at all.
\<close>

theorem FStar_String_strcat_invalid_exhausted:
  "string_at (demo 2) (Ptr 4 0) = Some ''abc'' \<and>
   string_at (demo 2) (Ptr 3 0) = Some ''hello'' \<and>
   FStar_String_strcat (Ptr 4 0) (Ptr 3 0) (demo 2) = Undefined"
proof -
  have "calloc (of_nat (length ''abc'') + of_nat (length ''hello'') + 1) 1 (demo 2)
          = Returned Null (demo 2)"
    by (rule calloc_refuses) (simp add: alloc_succeeds_demo)
  then have "FStar_String_strcat (Ptr 4 0) (Ptr 3 0) (demo 2) = Undefined"
    by (rule FStar_String_strcat_alloc_fails [OF demo_strings(5) demo_strings(4)])
  with demo_strings(4,5) show ?thesis by blast
qed

end
